theory Spec2Isabelle
  imports Main
begin

section \<open>The collaborators of the client\<close>

text \<open>
  The client of \<^verbatim>\<open>ldap-client.go\<close> drives a directory library (\<^verbatim>\<open>gopkg.in/ldap.v2\<close>)
  and a few functions of the Go standard library (\<^verbatim>\<open>fmt.Sprintf\<close>, \<^verbatim>\<open>log.Printf\<close>,
  \<^verbatim>\<open>time.Sleep\<close>). None of them is part of the source file. Their data types are
  written down as the client sees them, and their behaviour is a parameter of every
  operation: a record of functions that answer a call from the history of calls made so far.
\<close>

text \<open>
  A Go \<^verbatim>\<open>error\<close> value. \<open>errors_New msg\<close> is \<^verbatim>\<open>errors.New(msg)\<close>, the only errors the
  client itself creates; \<open>library_error\<close> stands for whatever the library reports.
\<close>

datatype error = errors_New string | library_error string

text \<open>A non-nil \<^verbatim>\<open>*ldap.Conn\<close>, by its identity; the nil pointer is \<open>None\<close>.\<close>

type_synonym conn = nat

text \<open>The two fields of \<^verbatim>\<open>tls.Config\<close> that the client sets.\<close>

record tls_Config =
  InsecureSkipVerify :: bool
  tls_ServerName :: string

text \<open>\<^verbatim>\<open>ldap.EntryAttribute\<close>, \<^verbatim>\<open>ldap.Entry\<close> and \<^verbatim>\<open>ldap.SearchResult\<close>.\<close>

record EntryAttribute =
  Name :: string
  Values :: "string list"

record Entry =
  DN :: string
  ent_Attributes :: "EntryAttribute list"

record SearchResult =
  Entries :: "Entry list"

text \<open>
  Modelled from the spec: the library's \<^verbatim>\<open>Entry.GetAttributeValues\<close> and
  \<^verbatim>\<open>Entry.GetAttributeValue\<close> are not in the source file. Each entry exposes "a lookup
  from attribute name to its (possibly multi-valued, but here always taken as) first
  string value", and a missing attribute reads as the empty string.
\<close>

fun GetAttributeValues :: "EntryAttribute list \<Rightarrow> string \<Rightarrow> string list" where
  "GetAttributeValues [] attribute = []"
| "GetAttributeValues (attr # rest) attribute =
     (if Name attr = attribute then Values attr else GetAttributeValues rest attribute)"

definition GetAttributeValue :: "Entry \<Rightarrow> string \<Rightarrow> string" where
  "GetAttributeValue e attribute =
     (case GetAttributeValues (ent_Attributes e) attribute of
        [] \<Rightarrow> ''''
      | v # _ \<Rightarrow> v)"

text \<open>
  \<^verbatim>\<open>ldap.SearchRequest\<close> as \<^verbatim>\<open>ldap.NewSearchRequest\<close> fills it. The client always
  passes \<^verbatim>\<open>nil\<close> controls, so that field is left out.
\<close>

record SearchRequest =
  BaseDN :: string
  Scope :: int
  DerefAliases :: int
  SizeLimit :: int
  TimeLimit :: int
  TypesOnly :: bool
  Filter :: string
  req_Attributes :: "string list"

definition ScopeWholeSubtree :: int where
  "ScopeWholeSubtree = 2"

definition NeverDerefAliases :: int where
  "NeverDerefAliases = 0"

definition NewSearchRequest ::
  "string \<Rightarrow> int \<Rightarrow> int \<Rightarrow> int \<Rightarrow> int \<Rightarrow> bool \<Rightarrow> string \<Rightarrow> string list \<Rightarrow> SearchRequest" where
  "NewSearchRequest base scope deref sizeLimit timeLimit typesOnly fltr attributes =
     \<lparr>BaseDN = base, Scope = scope, DerefAliases = deref, SizeLimit = sizeLimit,
      TimeLimit = timeLimit, TypesOnly = typesOnly, Filter = fltr,
      req_Attributes = attributes\<rparr>"

text \<open>\<^verbatim>\<open>time.Second\<close>, in nanoseconds (a \<^verbatim>\<open>time.Duration\<close> counts nanoseconds).\<close>

definition Second :: int where
  "Second = 1000000000"

text \<open>
  Every call that leaves the client is recorded, in the order of the calls: what was
  dialled, bound, searched, closed, logged and slept.
\<close>

datatype event =
    EvDial string string
  | EvStartTLS conn tls_Config
  | EvDialTLS string string tls_Config
  | EvBind conn string string
  | EvSearch conn SearchRequest
  | EvClose conn
  | EvLog SearchRequest int
  | EvSleep int

text \<open>
  The behaviour of the collaborators. Each network function sees the history of the calls
  before it, so a server may answer the same request differently over time (a transient
  failure). \<open>Sprintf\<close> is \<^verbatim>\<open>fmt.Sprintf\<close> with one string argument, \<open>Sprintf_addr\<close> is
  \<^verbatim>\<open>fmt.Sprintf("%s:%d", host, port)\<close>.
\<close>

record ldap_lib =
  Sprintf :: "string \<Rightarrow> string \<Rightarrow> string"
  Sprintf_addr :: "string \<Rightarrow> int \<Rightarrow> string"
  ldap_Dial :: "event list \<Rightarrow> string \<Rightarrow> string \<Rightarrow> error + conn"
  ldap_DialTLS :: "event list \<Rightarrow> string \<Rightarrow> string \<Rightarrow> tls_Config \<Rightarrow> error + conn"
  conn_StartTLS :: "event list \<Rightarrow> conn \<Rightarrow> tls_Config \<Rightarrow> error option"
  conn_Bind :: "event list \<Rightarrow> conn \<Rightarrow> string \<Rightarrow> string \<Rightarrow> error option"
  conn_Search :: "event list \<Rightarrow> conn \<Rightarrow> SearchRequest \<Rightarrow> error + SearchResult"

text \<open>One call each: the answer of the library, and the history with the call appended.\<close>

definition Dial :: "ldap_lib \<Rightarrow> string \<Rightarrow> string \<Rightarrow> event list \<Rightarrow> (error + conn) \<times> event list" where
  "Dial lib network address tr =
     (ldap_Dial lib tr network address, tr @ [EvDial network address])"

definition DialTLS ::
  "ldap_lib \<Rightarrow> string \<Rightarrow> string \<Rightarrow> tls_Config \<Rightarrow> event list \<Rightarrow> (error + conn) \<times> event list" where
  "DialTLS lib network address cfg tr =
     (ldap_DialTLS lib tr network address cfg, tr @ [EvDialTLS network address cfg])"

definition StartTLS :: "ldap_lib \<Rightarrow> conn \<Rightarrow> tls_Config \<Rightarrow> event list \<Rightarrow> error option \<times> event list" where
  "StartTLS lib l cfg tr = (conn_StartTLS lib tr l cfg, tr @ [EvStartTLS l cfg])"

definition Bind :: "ldap_lib \<Rightarrow> conn \<Rightarrow> string \<Rightarrow> string \<Rightarrow> event list \<Rightarrow> error option \<times> event list" where
  "Bind lib c dn password tr = (conn_Bind lib tr c dn password, tr @ [EvBind c dn password])"

definition Search ::
  "ldap_lib \<Rightarrow> conn \<Rightarrow> SearchRequest \<Rightarrow> event list \<Rightarrow> (error + SearchResult) \<times> event list" where
  "Search lib c req tr = (conn_Search lib tr c req, tr @ [EvSearch c req])"

section \<open>The client\<close>

record LDAPClient =
  Conn :: "conn option"
  Host :: string
  Port :: int
  UseSSL :: bool
  BindDN :: string
  BindPassword :: string
  GroupFilter :: string
  UserFilter :: string
  Base :: string
  Attributes :: "string list"
  ServerName :: string

text \<open>
  What a method call gives back: the values it returns, or the panic of a method called
  on the nil connection.
\<close>

datatype 'a outcome = Return 'a | Panic_nil_Conn

subsection \<open>Connect and Close\<close>

definition Connect ::
  "ldap_lib \<Rightarrow> LDAPClient \<Rightarrow> event list \<Rightarrow> error option \<times> LDAPClient \<times> event list" where
  "Connect lib lc tr =
     (if Conn lc = None then
        let address = Sprintf_addr lib (Host lc) (Port lc) in
        if \<not> UseSSL lc then
          (case Dial lib ''tcp'' address tr of
             (Inl err, tr1) \<Rightarrow> (Some err, lc, tr1)
           | (Inr l, tr1) \<Rightarrow>
               (case StartTLS lib l \<lparr>InsecureSkipVerify = True, tls_ServerName = ''''\<rparr> tr1 of
                  (Some err, tr2) \<Rightarrow> (Some err, lc, tr2)
                | (None, tr2) \<Rightarrow> (None, lc\<lparr>Conn := Some l\<rparr>, tr2)))
        else
          (case DialTLS lib ''tcp'' address
                  \<lparr>InsecureSkipVerify = False, tls_ServerName = ServerName lc\<rparr> tr of
             (Inl err, tr1) \<Rightarrow> (Some err, lc, tr1)
           | (Inr l, tr1) \<Rightarrow> (None, lc\<lparr>Conn := Some l\<rparr>, tr1))
      else (None, lc, tr))"

definition Close :: "LDAPClient \<Rightarrow> event list \<Rightarrow> LDAPClient \<times> event list" where
  "Close lc tr =
     (case Conn lc of
        Some c \<Rightarrow> (lc, tr @ [EvClose c])
      | None \<Rightarrow> (lc, tr))"

text \<open>The number of sessions dialled so far, plain or encrypted.\<close>

fun is_dial :: "event \<Rightarrow> bool" where
  "is_dial (EvDial network address) = True"
| "is_dial (EvDialTLS network address cfg) = True"
| "is_dial ev = False"

definition dial_count :: "event list \<Rightarrow> nat" where
  "dial_count tr = length (filter is_dial tr)"

subsection \<open>The search with its retry loop\<close>

text \<open>
  \<^verbatim>\<open>SearchUser\<close>, \<^verbatim>\<open>GetGroupsOfUser\<close> and \<^verbatim>\<open>FindUsers\<close> contain the same statements
  after building their request:
  \<^verbatim>\<open>
  sr, err := lc.Conn.Search(searchRequest)
  retry := 3
  for err != nil && retry <= 3 {
    sr, err = lc.Conn.Search(searchRequest)
    log.Printf("Retrying: [%s:%d] \n", searchRequest, retry)
    time.Sleep(time.Second * time.Duration(retry))
    retry++
  }
  \<close>
  The pair \<^verbatim>\<open>sr, err\<close> is one value here: \<open>Inl err\<close> when \<^verbatim>\<open>err != nil\<close>, else \<open>Inr sr\<close>.
\<close>

function retry_loop ::
  "ldap_lib \<Rightarrow> conn \<Rightarrow> SearchRequest \<Rightarrow> error + SearchResult \<Rightarrow> int \<Rightarrow> event list \<Rightarrow>
     (error + SearchResult) \<times> event list" where
  "retry_loop lib c searchRequest res retry tr =
     (if isl res \<and> retry \<le> 3 then
        (case Search lib c searchRequest tr of
           (res', tr1) \<Rightarrow>
             retry_loop lib c searchRequest res' (retry + 1)
               (tr1 @ [EvLog searchRequest retry, EvSleep (Second * retry)]))
      else (res, tr))"
  by pat_completeness auto
termination
  by (relation "measure (\<lambda>(lib, c, searchRequest, res, retry, tr). nat (4 - retry))") auto

definition search_with_retry ::
  "ldap_lib \<Rightarrow> conn \<Rightarrow> SearchRequest \<Rightarrow> event list \<Rightarrow> (error + SearchResult) \<times> event list" where
  "search_with_retry lib c searchRequest tr =
     (case Search lib c searchRequest tr of
        (res, tr1) \<Rightarrow> retry_loop lib c searchRequest res 3 tr1)"

subsection \<open>SearchUser, GetGroupsOfUser, FindUsers\<close>

text \<open>
  \<^verbatim>\<open>
  user := map[string]string{}
  for _, attr := range lc.Attributes { user[attr] = entry.GetAttributeValue(attr) }
  \<close>
\<close>

definition user_of_entry :: "string list \<Rightarrow> Entry \<Rightarrow> (string \<rightharpoonup> string)" where
  "user_of_entry attrs e =
     fold (\<lambda>attr user. user(attr \<mapsto> GetAttributeValue e attr)) attrs Map.empty"

text \<open>
  The request of \<^verbatim>\<open>SearchUser\<close>, \<^verbatim>\<open>FindUsers\<close> and \<^verbatim>\<open>Authenticate\<close>: the user filter
  formatted with the name, under the configured base, for the given attributes.
\<close>

definition UserFilterRequest :: "ldap_lib \<Rightarrow> LDAPClient \<Rightarrow> string \<Rightarrow> string list \<Rightarrow> SearchRequest" where
  "UserFilterRequest lib lc username attributes =
     NewSearchRequest (Base lc) ScopeWholeSubtree NeverDerefAliases 0 0 False
       (Sprintf lib (UserFilter lc) username) attributes"

text \<open>The request of \<^verbatim>\<open>GetGroupsOfUser\<close>: the group filter, and the attribute \<^verbatim>\<open>cn\<close> alone.\<close>

definition GroupFilterRequest :: "ldap_lib \<Rightarrow> LDAPClient \<Rightarrow> string \<Rightarrow> SearchRequest" where
  "GroupFilterRequest lib lc username =
     NewSearchRequest (Base lc) ScopeWholeSubtree NeverDerefAliases 0 0 False
       (Sprintf lib (GroupFilter lc) username) [''cn'']"

definition SearchUser ::
  "ldap_lib \<Rightarrow> string \<Rightarrow> LDAPClient \<Rightarrow> event list \<Rightarrow>
     ((string \<rightharpoonup> string) option \<times> error option) outcome \<times> LDAPClient \<times> event list" where
  "SearchUser lib username lc tr =
     (case Connect lib lc tr of
        (Some err, lc1, tr1) \<Rightarrow> (Return (None, Some err), lc1, tr1)
      | (None, lc1, tr1) \<Rightarrow>
          let searchRequest = UserFilterRequest lib lc1 username (Attributes lc1) in
          (case Conn lc1 of
             None \<Rightarrow> (Panic_nil_Conn, lc1, tr1)
           | Some c \<Rightarrow>
               (case search_with_retry lib c searchRequest tr1 of
                  (Inl err, tr2) \<Rightarrow> (Return (None, Some err), lc1, tr2)
                | (Inr sr, tr2) \<Rightarrow>
                    if length (Entries sr) < 1 then
                      (Return (None, Some (errors_New ''User does not exist'')), lc1, tr2)
                    else if length (Entries sr) > 1 then
                      (Return (None, Some (errors_New ''Too many entries returned'')), lc1, tr2)
                    else
                      (Return (Some (user_of_entry (Attributes lc1) (Entries sr ! 0)), None),
                       lc1, tr2))))"

definition GetGroupsOfUser ::
  "ldap_lib \<Rightarrow> string \<Rightarrow> LDAPClient \<Rightarrow> event list \<Rightarrow>
     (string list option \<times> error option) outcome \<times> LDAPClient \<times> event list" where
  "GetGroupsOfUser lib username lc tr =
     (case Connect lib lc tr of
        (Some err, lc1, tr1) \<Rightarrow> (Return (None, Some err), lc1, tr1)
      | (None, lc1, tr1) \<Rightarrow>
          let searchRequest = GroupFilterRequest lib lc1 username in
          (case Conn lc1 of
             None \<Rightarrow> (Panic_nil_Conn, lc1, tr1)
           | Some c \<Rightarrow>
               (case search_with_retry lib c searchRequest tr1 of
                  (Inl err, tr2) \<Rightarrow> (Return (None, Some err), lc1, tr2)
                | (Inr sr, tr2) \<Rightarrow>
                    (Return (Some (map (\<lambda>entry. GetAttributeValue entry ''cn'') (Entries sr)),
                             None), lc1, tr2))))"

definition FindUsers ::
  "ldap_lib \<Rightarrow> string \<Rightarrow> LDAPClient \<Rightarrow> event list \<Rightarrow>
     ((string \<rightharpoonup> string) list option \<times> error option) outcome \<times> LDAPClient \<times> event list" where
  "FindUsers lib search lc tr =
     (case Connect lib lc tr of
        (Some err, lc1, tr1) \<Rightarrow> (Return (None, Some err), lc1, tr1)
      | (None, lc1, tr1) \<Rightarrow>
          let searchRequest = UserFilterRequest lib lc1 search (Attributes lc1) in
          (case Conn lc1 of
             None \<Rightarrow> (Panic_nil_Conn, lc1, tr1)
           | Some c \<Rightarrow>
               (case search_with_retry lib c searchRequest tr1 of
                  (Inl err, tr2) \<Rightarrow> (Return (None, Some err), lc1, tr2)
                | (Inr sr, tr2) \<Rightarrow>
                    if length (Entries sr) < 1 then
                      (Return (None, Some (errors_New ''User does not exist'')), lc1, tr2)
                    else
                      (Return (Some (map (user_of_entry (Attributes lc1)) (Entries sr)), None),
                       lc1, tr2))))"

subsection \<open>Authenticate\<close>

text \<open>
  The privileged bind, before the search and again after the credential check:
  \<^verbatim>\<open>if lc.BindDN != "" && lc.BindPassword != "" { err := lc.Conn.Bind(lc.BindDN, lc.BindPassword) ... }\<close>
  When the guard is false nothing is called and there is no error.
\<close>

definition privileged_bind ::
  "ldap_lib \<Rightarrow> LDAPClient \<Rightarrow> conn \<Rightarrow> event list \<Rightarrow> error option \<times> event list" where
  "privileged_bind lib lc c tr =
     (if BindDN lc \<noteq> '''' \<and> BindPassword lc \<noteq> '''' then
        Bind lib c (BindDN lc) (BindPassword lc) tr
      else (None, tr))"

definition Authenticate ::
  "ldap_lib \<Rightarrow> string \<Rightarrow> string \<Rightarrow> LDAPClient \<Rightarrow> event list \<Rightarrow>
     (bool \<times> (string \<rightharpoonup> string) option \<times> error option) outcome \<times> LDAPClient \<times> event list" where
  "Authenticate lib username password lc tr =
     (case Connect lib lc tr of
        (Some err, lc1, tr1) \<Rightarrow> (Return (False, None, Some err), lc1, tr1)
      | (None, lc1, tr1) \<Rightarrow>
          (case Conn lc1 of
             None \<Rightarrow> (Panic_nil_Conn, lc1, tr1)
           | Some c \<Rightarrow>
               (case privileged_bind lib lc1 c tr1 of
                  (Some err, tr2) \<Rightarrow> (Return (False, None, Some err), lc1, tr2)
                | (None, tr2) \<Rightarrow>
                    let attributes = Attributes lc1 @ [''dn''];
                        searchRequest = UserFilterRequest lib lc1 username attributes in
                    (case Search lib c searchRequest tr2 of
                       (Inl err, tr3) \<Rightarrow> (Return (False, None, Some err), lc1, tr3)
                     | (Inr sr, tr3) \<Rightarrow>
                         if length (Entries sr) < 1 then
                           (Return (False, None, Some (errors_New ''User does not exist'')),
                            lc1, tr3)
                         else if length (Entries sr) > 1 then
                           (Return (False, None, Some (errors_New ''Too many entries returned'')),
                            lc1, tr3)
                         else
                           let userDN = DN (Entries sr ! 0);
                               user = user_of_entry (Attributes lc1) (Entries sr ! 0) in
                           (case Bind lib c userDN password tr3 of
                              (Some err, tr4) \<Rightarrow> (Return (False, Some user, Some err), lc1, tr4)
                            | (None, tr4) \<Rightarrow>
                                (case privileged_bind lib lc1 c tr4 of
                                   (Some err, tr5) \<Rightarrow>
                                     (Return (True, Some user, Some err), lc1, tr5)
                                 | (None, tr5) \<Rightarrow>
                                     (Return (True, Some user, None), lc1, tr5)))))))"

section \<open>A small directory to run the client against\<close>

text \<open>
  A concrete set of collaborators, used to evaluate the client. \<open>demo_Sprintf\<close> puts the
  argument in place of the first \<^verbatim>\<open>%s\<close> and copies the rest, as \<^verbatim>\<open>fmt.Sprintf\<close> does
  for a template whose only verb is one \<^verbatim>\<open>%s\<close>.
\<close>

fun demo_Sprintf :: "string \<Rightarrow> string \<Rightarrow> string" where
  "demo_Sprintf [] a = []"
| "demo_Sprintf [c] a = [c]"
| "demo_Sprintf (c # d # rest) a =
     (if c = CHR ''%'' \<and> d = CHR ''s'' then a @ rest else c # demo_Sprintf (d # rest) a)"

function decimal :: "nat \<Rightarrow> string" where
  "decimal n =
     (if n < 10 then [''0123456789'' ! n]
      else decimal (n div 10) @ [''0123456789'' ! (n mod 10)])"
  by pat_completeness auto
termination
  by (relation "measure id") auto

definition demo_Sprintf_addr :: "string \<Rightarrow> int \<Rightarrow> string" where
  "demo_Sprintf_addr host port =
     host @ '':'' @ (if port < 0 then ''-'' @ decimal (nat (- port)) else decimal (nat port))"

definition alice :: Entry where
  "alice = \<lparr>DN = ''uid=alice,ou=people,dc=example,dc=com'',
            ent_Attributes = [\<lparr>Name = ''cn'', Values = [''Alice A'']\<rparr>,
                              \<lparr>Name = ''mail'', Values = [''alice@example.com'']\<rparr>,
                              \<lparr>Name = ''uid'', Values = [''alice'']\<rparr>]\<rparr>"

definition bob :: Entry where
  "bob = \<lparr>DN = ''uid=bob,ou=people,dc=example,dc=com'',
          ent_Attributes = [\<lparr>Name = ''cn'', Values = [''Bob B'', ''Robert B'']\<rparr>,
                            \<lparr>Name = ''telephoneNumber'', Values = [''555-0100'']\<rparr>]\<rparr>"

definition admins :: Entry where
  "admins = \<lparr>DN = ''cn=admins,ou=groups,dc=example,dc=com'',
             ent_Attributes = [\<lparr>Name = ''cn'', Values = [''admins'']\<rparr>,
                               \<lparr>Name = ''memberUid'', Values = [''bob'']\<rparr>]\<rparr>"

definition devs :: Entry where
  "devs = \<lparr>DN = ''cn=devs,ou=groups,dc=example,dc=com'',
           ent_Attributes = [\<lparr>Name = ''cn'', Values = [''devs'']\<rparr>,
                             \<lparr>Name = ''memberUid'', Values = [''bob'', ''alice'']\<rparr>]\<rparr>"

definition demo_directory :: "string \<Rightarrow> Entry list" where
  "demo_directory fltr =
     (if fltr = ''(uid=alice)'' then [alice]
      else if fltr = ''(uid=bob)'' then [bob]
      else if fltr = ''(uid=*)'' then [alice, bob]
      else if fltr = ''(memberUid=bob)'' then [admins, devs]
      else [])"

text \<open>The server sends the requested attributes of an entry only.\<close>

definition requested :: "string list \<Rightarrow> Entry \<Rightarrow> Entry" where
  "requested attrs e =
     e\<lparr>ent_Attributes := filter (\<lambda>a. Name a \<in> set attrs) (ent_Attributes e)\<rparr>"

fun is_search :: "event \<Rightarrow> bool" where
  "is_search (EvSearch c req) = True"
| "is_search ev = False"

fun is_bind :: "event \<Rightarrow> bool" where
  "is_bind (EvBind c dn password) = True"
| "is_bind ev = False"

text \<open>
  \<open>demo_lib failing_searches reader_binds\<close>: every dial succeeds and opens a new session;
  the first \<open>failing_searches\<close> searches fail, the later ones answer from the directory;
  a search on a closed session fails; the reader account is accepted for the first
  \<open>reader_binds\<close> binds of the history only; alice has the password \<^verbatim>\<open>wonderland\<close>.
\<close>

definition demo_lib :: "nat \<Rightarrow> nat \<Rightarrow> ldap_lib" where
  "demo_lib failing_searches reader_binds =
     \<lparr>Sprintf = demo_Sprintf,
      Sprintf_addr = demo_Sprintf_addr,
      ldap_Dial = (\<lambda>tr network address. Inr (dial_count tr)),
      ldap_DialTLS = (\<lambda>tr network address cfg. Inr (dial_count tr)),
      conn_StartTLS = (\<lambda>tr l cfg. None),
      conn_Bind = (\<lambda>tr c dn password.
        if dn = ''cn=reader,dc=example,dc=com'' \<and> password = ''secret''
           \<and> length (filter is_bind tr) < reader_binds then None
        else if dn = DN alice \<and> password = ''wonderland'' then None
        else Some (library_error ''Invalid Credentials'')),
      conn_Search = (\<lambda>tr c req.
        if EvClose c \<in> set tr then Inl (library_error ''connection closed'')
        else if length (filter is_search tr) < failing_searches
          then Inl (library_error ''timeout'')
        else Inr \<lparr>Entries = map (requested (req_Attributes req))
                                (demo_directory (Filter req))\<rparr>)\<rparr>"

definition demo_client :: LDAPClient where
  "demo_client =
     \<lparr>Conn = None, Host = ''ldap.example.com'', Port = 389, UseSSL = False,
      BindDN = ''cn=reader,dc=example,dc=com'', BindPassword = ''secret'',
      GroupFilter = ''(memberUid=%s)'', UserFilter = ''(uid=%s)'',
      Base = ''dc=example,dc=com'', Attributes = [''cn'', ''mail'', ''telephoneNumber''],
      ServerName = ''ldap.example.com''\<rparr>"

definition alice_request :: SearchRequest where
  "alice_request =
     \<lparr>BaseDN = ''dc=example,dc=com'', Scope = 2, DerefAliases = 0, SizeLimit = 0,
      TimeLimit = 0, TypesOnly = False, Filter = ''(uid=alice)'',
      req_Attributes = [''cn'', ''mail'', ''telephoneNumber'']\<rparr>"

definition bob_groups_request :: SearchRequest where
  "bob_groups_request =
     \<lparr>BaseDN = ''dc=example,dc=com'', Scope = 2, DerefAliases = 0, SizeLimit = 0,
      TimeLimit = 0, TypesOnly = False, Filter = ''(memberUid=bob)'',
      req_Attributes = [''cn'']\<rparr>"

definition connected_client :: LDAPClient where
  "connected_client = demo_client\<lparr>Conn := Some 0\<rparr>"

definition connected_history :: "event list" where
  "connected_history =
     [EvDial ''tcp'' ''ldap.example.com:389'',
      EvStartTLS 0 \<lparr>InsecureSkipVerify = True, tls_ServerName = ''''\<rparr>]"

definition alice_auth_request :: SearchRequest where
  "alice_auth_request =
     \<lparr>BaseDN = ''dc=example,dc=com'', Scope = 2, DerefAliases = 0, SizeLimit = 0,
      TimeLimit = 0, TypesOnly = False, Filter = ''(uid=alice)'',
      req_Attributes = [''cn'', ''mail'', ''telephoneNumber'', ''dn'']\<rparr>"

definition carol_auth_request :: SearchRequest where
  "carol_auth_request =
     \<lparr>BaseDN = ''dc=example,dc=com'', Scope = 2, DerefAliases = 0, SizeLimit = 0,
      TimeLimit = 0, TypesOnly = False, Filter = ''(uid=carol)'',
      req_Attributes = [''cn'', ''mail'', ''telephoneNumber'', ''dn'']\<rparr>"

text \<open>The entry of alice as the server sends it for that request, and her user record.\<close>

definition alice_found :: Entry where
  "alice_found = requested [''cn'', ''mail'', ''telephoneNumber'', ''dn''] alice"

definition alice_user :: "string \<rightharpoonup> string" where
  "alice_user = user_of_entry [''cn'', ''mail'', ''telephoneNumber''] alice_found"

definition reader_bound_history :: "event list" where
  "reader_bound_history =
     connected_history @ [EvBind 0 ''cn=reader,dc=example,dc=com'' ''secret'']"

text \<open>The same client without a password for the reader account.\<close>

definition client_without_password :: LDAPClient where
  "client_without_password = demo_client\<lparr>BindPassword := ''''\<rparr>"

section \<open>Facts about connecting and about the retry loop\<close>

declare retry_loop.simps [simp del]


lemma Connect_connected: "Conn lc = Some c \<Longrightarrow> Connect lib lc tr = (None, lc, tr)"
  by (simp add: Connect_def)

lemma Connect_ok_Conn:
  assumes "Connect lib lc tr = (None, lc1, tr1)"
  shows "\<exists>c. Conn lc1 = Some c"
  using assms
  by (auto simp: Connect_def Let_def split: if_splits prod.splits sum.splits option.splits)

lemma Connect_config:
  assumes "Connect lib lc tr = (err, lc1, tr1)"
  shows "lc1 = lc\<lparr>Conn := Conn lc1\<rparr>"
  using assms
  by (auto simp: Connect_def Let_def split: if_splits prod.splits sum.splits option.splits)

lemma Connect_ok_dial_count:
  assumes "Conn lc = None" and "Connect lib lc tr = (None, lc1, tr1)"
  shows "dial_count tr1 = dial_count tr + 1"
  using assms
  by (auto simp: Connect_def Let_def Dial_def DialTLS_def StartTLS_def dial_count_def
      split: if_splits prod.splits sum.splits option.splits)


lemma retry_loop_done: "retry_loop lib c req (Inr sr) retry tr = (Inr sr, tr)"
  by (subst retry_loop.simps) simp

lemma retry_loop_exhausted: "3 < retry \<Longrightarrow> retry_loop lib c req res retry tr = (res, tr)"
  by (subst retry_loop.simps) simp

lemma retry_loop_from_3:
  "retry_loop lib c req (Inl err) 3 tr =
     (conn_Search lib tr c req,
      tr @ [EvSearch c req, EvLog req 3, EvSleep (Second * 3)])"
  by (subst retry_loop.simps) (simp add: Search_def retry_loop_exhausted)

lemma search_with_retry_eq:
  "search_with_retry lib c req tr =
     (case conn_Search lib tr c req of
        Inr sr \<Rightarrow> (Inr sr, tr @ [EvSearch c req])
      | Inl err \<Rightarrow>
          (conn_Search lib (tr @ [EvSearch c req]) c req,
           tr @ [EvSearch c req, EvSearch c req, EvLog req 3, EvSleep (Second * 3)]))"
  by (simp add: search_with_retry_def Search_def retry_loop_done retry_loop_from_3
      split: sum.splits)

lemma search_with_retry_at_most_two:
  "length (filter is_search (snd (search_with_retry lib c req tr)))
     \<le> length (filter is_search tr) + 2"
  by (simp add: search_with_retry_eq split: sum.splits)

section \<open>Connecting twice, closing an unconnected client\<close>

text \<open>
  Claim C9. Connect is idempotent and Close is safe on an unconnected client: when Connect
  on an unconnected client succeeds, a second Connect right after it returns no error and
  changes neither the client nor the history, so the two calls dial exactly once; and Close
  on a client that has no session changes nothing and reports nothing.
\<close>

theorem connect_twice_one_dial_close_unconnected_noop:
  assumes "Conn lc = None" and "Connect lib lc tr = (None, lc1, tr1)"
  shows "Connect lib lc1 tr1 = (None, lc1, tr1) \<and> dial_count tr1 = dial_count tr + 1
         \<and> Close lc tr = (lc, tr)"
proof -
  from assms(2) obtain c where "Conn lc1 = Some c"
    using Connect_ok_Conn by blast
  then have "Connect lib lc1 tr1 = (None, lc1, tr1)"
    by (rule Connect_connected)
  moreover have "dial_count tr1 = dial_count tr + 1"
    using assms by (rule Connect_ok_dial_count)
  moreover have "Close lc tr = (lc, tr)"
    using assms(1) by (simp add: Close_def)
  ultimately show ?thesis by simp
qed

lemma demo_connect:
  "Connect (demo_lib k n) demo_client [] =
     (None, demo_client\<lparr>Conn := Some 0\<rparr>,
      [EvDial ''tcp'' ''ldap.example.com:389'',
       EvStartTLS 0 \<lparr>InsecureSkipVerify = True, tls_ServerName = ''''\<rparr>])"
  by (simp add: Connect_def demo_lib_def demo_client_def Dial_def StartTLS_def
      demo_Sprintf_addr_def dial_count_def)

theorem connect_twice_one_dial_close_unconnected_noop_witness:
  "Conn demo_client = None
   \<and> Connect (demo_lib 0 9) demo_client [] =
       (None, demo_client\<lparr>Conn := Some 0\<rparr>,
        [EvDial ''tcp'' ''ldap.example.com:389'',
         EvStartTLS 0 \<lparr>InsecureSkipVerify = True, tls_ServerName = ''''\<rparr>])
   \<and> Connect (demo_lib 0 9) (demo_client\<lparr>Conn := Some 0\<rparr>)
         [EvDial ''tcp'' ''ldap.example.com:389'',
          EvStartTLS 0 \<lparr>InsecureSkipVerify = True, tls_ServerName = ''''\<rparr>] =
       (None, demo_client\<lparr>Conn := Some 0\<rparr>,
        [EvDial ''tcp'' ''ldap.example.com:389'',
         EvStartTLS 0 \<lparr>InsecureSkipVerify = True, tls_ServerName = ''''\<rparr>])
   \<and> dial_count [EvDial ''tcp'' ''ldap.example.com:389'',
         EvStartTLS 0 \<lparr>InsecureSkipVerify = True, tls_ServerName = ''''\<rparr>] = dial_count [] + 1
   \<and> Close demo_client [] = (demo_client, [])"
proof -
  have h1: "Conn demo_client = None"
    by (simp add: demo_client_def)
  note h2 = demo_connect [of 0 9]
  from connect_twice_one_dial_close_unconnected_noop [OF h1 h2] h1 h2
  show ?thesis by simp
qed

section \<open>The retry loop on a search that fails twice\<close>

lemma demo_connect_state:
  "Connect (demo_lib k n) demo_client [] = (None, connected_client, connected_history)"
  by (simp add: demo_connect connected_client_def connected_history_def)

lemma demo_user_request:
  "UserFilterRequest (demo_lib k n) connected_client ''alice'' (Attributes connected_client)
     = alice_request"
  by (simp add: UserFilterRequest_def NewSearchRequest_def demo_lib_def connected_client_def
      demo_client_def alice_request_def ScopeWholeSubtree_def NeverDerefAliases_def)

lemma demo_group_request:
  "GroupFilterRequest (demo_lib k n) connected_client ''bob'' = bob_groups_request"
  by (simp add: GroupFilterRequest_def NewSearchRequest_def demo_lib_def connected_client_def
      demo_client_def bob_groups_request_def ScopeWholeSubtree_def NeverDerefAliases_def)

lemma demo_two_failures:
  "search_with_retry (demo_lib 2 n) 0 req connected_history =
     (Inl (library_error ''timeout''),
      connected_history @ [EvSearch 0 req, EvSearch 0 req, EvLog req 3, EvSleep (3 * Second)])"
  by (simp add: search_with_retry_eq demo_lib_def connected_history_def)

lemma demo_third_search:
  "conn_Search (demo_lib 2 n)
      (connected_history @ [EvSearch 0 req, EvSearch 0 req, EvLog req 3, EvSleep (3 * Second)])
      0 req =
    Inr \<lparr>Entries = map (requested (req_Attributes req)) (demo_directory (Filter req))\<rparr>"
  by (simp add: demo_lib_def connected_history_def)

text \<open>
  Claim C1. The claim asks for up to three retries, with pauses of 1s, 2s and 3s, so that a
  search failing twice and then succeeding is answered on the third attempt. The loop
  starts its counter at 3 and runs while the counter is at most 3: it searches once more,
  sleeps 3 seconds, and gives up. Against a server whose first two searches fail and whose
  third would succeed, each of SearchUser, FindUsers and GetGroupsOfUser returns the second
  failure after two identical searches and one pause of 3 seconds.
\<close>

theorem two_failures_are_not_retried_to_success:
  "SearchUser (demo_lib 2 9) ''alice'' demo_client [] =
     (Return (None, Some (library_error ''timeout'')), connected_client,
      connected_history @ [EvSearch 0 alice_request, EvSearch 0 alice_request,
        EvLog alice_request 3, EvSleep (3 * Second)])
   \<and> FindUsers (demo_lib 2 9) ''alice'' demo_client [] =
     (Return (None, Some (library_error ''timeout'')), connected_client,
      connected_history @ [EvSearch 0 alice_request, EvSearch 0 alice_request,
        EvLog alice_request 3, EvSleep (3 * Second)])
   \<and> GetGroupsOfUser (demo_lib 2 9) ''bob'' demo_client [] =
     (Return (None, Some (library_error ''timeout'')), connected_client,
      connected_history @ [EvSearch 0 bob_groups_request, EvSearch 0 bob_groups_request,
        EvLog bob_groups_request 3, EvSleep (3 * Second)])
   \<and> conn_Search (demo_lib 2 9)
        (connected_history @ [EvSearch 0 alice_request, EvSearch 0 alice_request,
           EvLog alice_request 3, EvSleep (3 * Second)]) 0 alice_request =
      Inr \<lparr>Entries = [requested [''cn'', ''mail'', ''telephoneNumber''] alice]\<rparr>"
proof -
  have c: "Conn connected_client = Some 0"
    by (simp add: connected_client_def)
  have "SearchUser (demo_lib 2 9) ''alice'' demo_client [] =
     (Return (None, Some (library_error ''timeout'')), connected_client,
      connected_history @ [EvSearch 0 alice_request, EvSearch 0 alice_request,
        EvLog alice_request 3, EvSleep (3 * Second)])"
    by (simp add: SearchUser_def demo_connect_state demo_user_request c demo_two_failures)
  moreover have "FindUsers (demo_lib 2 9) ''alice'' demo_client [] =
     (Return (None, Some (library_error ''timeout'')), connected_client,
      connected_history @ [EvSearch 0 alice_request, EvSearch 0 alice_request,
        EvLog alice_request 3, EvSleep (3 * Second)])"
    by (simp add: FindUsers_def demo_connect_state demo_user_request c demo_two_failures)
  moreover have "GetGroupsOfUser (demo_lib 2 9) ''bob'' demo_client [] =
     (Return (None, Some (library_error ''timeout'')), connected_client,
      connected_history @ [EvSearch 0 bob_groups_request, EvSearch 0 bob_groups_request,
        EvLog bob_groups_request 3, EvSleep (3 * Second)])"
    by (simp add: GetGroupsOfUser_def demo_connect_state demo_group_request c demo_two_failures)
  moreover have "conn_Search (demo_lib 2 9)
        (connected_history @ [EvSearch 0 alice_request, EvSearch 0 alice_request,
           EvLog alice_request 3, EvSleep (3 * Second)]) 0 alice_request =
      Inr \<lparr>Entries = [requested [''cn'', ''mail'', ''telephoneNumber''] alice]\<rparr>"
    by (simp add: demo_third_search) (simp add: alice_request_def demo_directory_def)
  ultimately show ?thesis by simp
qed

section \<open>Connecting again after Close\<close>

lemma Close_keeps_the_closed_session:
  assumes "Conn lc = Some c"
  shows "Close lc tr = (lc, tr @ [EvClose c])
         \<and> Connect lib lc (tr @ [EvClose c]) = (None, lc, tr @ [EvClose c])"
  using assms by (simp add: Close_def Connect_connected)

text \<open>
  Claim C2. The claim asks that Close brings the client back to the unconnected state, so
  that the next Connect dials a new session. Close closes the session and leaves the
  closed connection in the client: the next Connect finds a connection, does nothing,
  and the history still holds one dial; the search that follows runs on the closed session
  and fails.
\<close>

theorem connect_after_close_does_not_dial:
  "Connect (demo_lib 0 9) demo_client [] = (None, connected_client, connected_history)
   \<and> Close connected_client connected_history =
       (connected_client, connected_history @ [EvClose 0])
   \<and> Connect (demo_lib 0 9) connected_client (connected_history @ [EvClose 0]) =
       (None, connected_client, connected_history @ [EvClose 0])
   \<and> Conn connected_client = Some 0
   \<and> dial_count (connected_history @ [EvClose 0]) = 1
   \<and> SearchUser (demo_lib 0 9) ''alice'' connected_client (connected_history @ [EvClose 0]) =
       (Return (None, Some (library_error ''connection closed'')), connected_client,
        connected_history @ [EvClose 0, EvSearch 0 alice_request, EvSearch 0 alice_request,
          EvLog alice_request 3, EvSleep (3 * Second)])"
proof -
  have c: "Conn connected_client = Some 0"
    by (simp add: connected_client_def)
  have closed: "search_with_retry (demo_lib 0 9) 0 alice_request (connected_history @ [EvClose 0])
      = (Inl (library_error ''connection closed''),
         connected_history @ [EvClose 0, EvSearch 0 alice_request, EvSearch 0 alice_request,
          EvLog alice_request 3, EvSleep (3 * Second)])"
    by (simp add: search_with_retry_eq demo_lib_def)
  have "SearchUser (demo_lib 0 9) ''alice'' connected_client (connected_history @ [EvClose 0]) =
       (Return (None, Some (library_error ''connection closed'')), connected_client,
        connected_history @ [EvClose 0, EvSearch 0 alice_request, EvSearch 0 alice_request,
          EvLog alice_request 3, EvSleep (3 * Second)])"
    by (simp add: SearchUser_def Connect_connected [OF c] c demo_user_request closed)
  moreover have "dial_count (connected_history @ [EvClose 0]) = 1"
    by (simp add: dial_count_def connected_history_def)
  ultimately show ?thesis
    using Close_keeps_the_closed_session [OF c] demo_connect_state [of 0 9] c by simp
qed

section \<open>The user record built from an entry\<close>

lemma fold_user_dom:
  "dom (fold (\<lambda>attr user. user(attr \<mapsto> GetAttributeValue e attr)) attrs m) = dom m \<union> set attrs"
  by (induction attrs arbitrary: m) auto

lemma fold_user_value:
  "fold (\<lambda>attr user. user(attr \<mapsto> GetAttributeValue e attr)) attrs m a =
     (if a \<in> set attrs then Some (GetAttributeValue e a) else m a)"
  by (induction attrs arbitrary: m) auto

lemma dom_user_of_entry: "dom (user_of_entry attrs e) = set attrs"
  by (simp add: user_of_entry_def fold_user_dom)

lemma user_of_entry_value:
  "attr \<in> set attrs \<Longrightarrow> user_of_entry attrs e attr = Some (GetAttributeValue e attr)"
  by (simp add: user_of_entry_def fold_user_value)

lemma user_of_entry_other: "attr \<notin> set attrs \<Longrightarrow> user_of_entry attrs e attr = None"
  by (simp add: user_of_entry_def fold_user_value)

lemma GetAttributeValues_missing:
  "attribute \<notin> Name ` set attrs \<Longrightarrow> GetAttributeValues attrs attribute = []"
  by (induction attrs) auto

lemma GetAttributeValue_missing:
  "attribute \<notin> Name ` set (ent_Attributes e) \<Longrightarrow> GetAttributeValue e attribute = ''''"
  by (simp add: GetAttributeValue_def GetAttributeValues_missing)

lemma Connect_Attributes:
  assumes "Connect lib lc tr = (err, lc1, tr1)"
  shows "Attributes lc1 = Attributes lc"
  using Connect_config [OF assms] by (cases lc, cases lc1) simp

section \<open>The three lookups, given the outcome of their search\<close>

lemma SearchUser_searched:
  assumes "Connect lib lc tr = (None, lc1, tr1)" and "Conn lc1 = Some c"
    and "search_with_retry lib c (UserFilterRequest lib lc1 username (Attributes lc1)) tr1
           = (res, tr2)"
  shows "SearchUser lib username lc tr =
     (case res of
        Inl err \<Rightarrow> (Return (None, Some err), lc1, tr2)
      | Inr sr \<Rightarrow>
          if length (Entries sr) < 1 then
            (Return (None, Some (errors_New ''User does not exist'')), lc1, tr2)
          else if length (Entries sr) > 1 then
            (Return (None, Some (errors_New ''Too many entries returned'')), lc1, tr2)
          else (Return (Some (user_of_entry (Attributes lc1) (Entries sr ! 0)), None), lc1, tr2))"
  using assms by (simp add: SearchUser_def split: sum.splits)

lemma FindUsers_searched:
  assumes "Connect lib lc tr = (None, lc1, tr1)" and "Conn lc1 = Some c"
    and "search_with_retry lib c (UserFilterRequest lib lc1 username (Attributes lc1)) tr1
           = (res, tr2)"
  shows "FindUsers lib username lc tr =
     (case res of
        Inl err \<Rightarrow> (Return (None, Some err), lc1, tr2)
      | Inr sr \<Rightarrow>
          if length (Entries sr) < 1 then
            (Return (None, Some (errors_New ''User does not exist'')), lc1, tr2)
          else (Return (Some (map (user_of_entry (Attributes lc1)) (Entries sr)), None), lc1, tr2))"
  using assms by (simp add: FindUsers_def split: sum.splits)

lemma GetGroupsOfUser_searched:
  assumes "Connect lib lc tr = (None, lc1, tr1)" and "Conn lc1 = Some c"
    and "search_with_retry lib c (GroupFilterRequest lib lc1 username) tr1 = (res, tr2)"
  shows "GetGroupsOfUser lib username lc tr =
     (case res of
        Inl err \<Rightarrow> (Return (None, Some err), lc1, tr2)
      | Inr sr \<Rightarrow>
          (Return (Some (map (\<lambda>entry. GetAttributeValue entry ''cn'') (Entries sr)), None),
           lc1, tr2))"
  using assms by (simp add: GetGroupsOfUser_def split: sum.splits)

lemma demo_search:
  "search_with_retry (demo_lib 0 n) 0 req connected_history =
     (Inr \<lparr>Entries = map (requested (req_Attributes req)) (demo_directory (Filter req))\<rparr>,
      connected_history @ [EvSearch 0 req])"
  by (simp add: search_with_retry_eq demo_lib_def connected_history_def)

lemma demo_search_after_one_failure:
  "search_with_retry (demo_lib (Suc 0) n) 0 req connected_history =
     (Inr \<lparr>Entries = map (requested (req_Attributes req)) (demo_directory (Filter req))\<rparr>,
      connected_history @ [EvSearch 0 req, EvSearch 0 req, EvLog req 3, EvSleep (3 * Second)])"
  by (simp add: search_with_retry_eq demo_lib_def connected_history_def)

lemma connected_client_Conn: "Conn connected_client = Some 0"
  by (simp add: connected_client_def)

lemma demo_attributes: "Attributes demo_client = [''cn'', ''mail'', ''telephoneNumber'']"
  by (simp add: demo_client_def)

section \<open>SearchUser on exactly one entry\<close>

text \<open>
  Claim C3. When the search of SearchUser (the first one, or the retry) answers with exactly
  one entry, SearchUser returns no error and a mapping whose keys are the configured
  attribute names; each key maps to the single value the entry gives for it, and to the
  empty string when the entry has no attribute of that name.
\<close>

theorem SearchUser_one_entry:
  assumes "Connect lib lc tr = (None, lc1, tr1)" and "Conn lc1 = Some c"
    and "search_with_retry lib c (UserFilterRequest lib lc1 username (Attributes lc1)) tr1
           = (Inr sr, tr2)"
    and "Entries sr = [e]"
  shows "SearchUser lib username lc tr =
           (Return (Some (user_of_entry (Attributes lc) e), None), lc1, tr2)
         \<and> dom (user_of_entry (Attributes lc) e) = set (Attributes lc)
         \<and> (\<forall>attr \<in> set (Attributes lc).
               user_of_entry (Attributes lc) e attr = Some (GetAttributeValue e attr))
         \<and> (\<forall>attr \<in> set (Attributes lc). attr \<notin> Name ` set (ent_Attributes e) \<longrightarrow>
               user_of_entry (Attributes lc) e attr = Some '''')"
proof -
  have attrs: "Attributes lc1 = Attributes lc"
    using assms(1) by (rule Connect_Attributes)
  have "SearchUser lib username lc tr =
          (Return (Some (user_of_entry (Attributes lc) e), None), lc1, tr2)"
    using SearchUser_searched [OF assms(1,2,3)] assms(4) attrs by simp
  moreover have "\<forall>attr \<in> set (Attributes lc). attr \<notin> Name ` set (ent_Attributes e) \<longrightarrow>
               user_of_entry (Attributes lc) e attr = Some ''''"
    by (simp add: user_of_entry_value GetAttributeValue_missing)
  ultimately show ?thesis
    by (simp add: dom_user_of_entry user_of_entry_value)
qed

theorem SearchUser_one_entry_witness:
  "Connect (demo_lib 1 9) demo_client [] = (None, connected_client, connected_history)
   \<and> SearchUser (demo_lib 1 9) ''alice'' demo_client [] =
       (Return (Some (user_of_entry [''cn'', ''mail'', ''telephoneNumber'']
                        (requested [''cn'', ''mail'', ''telephoneNumber''] alice)), None),
        connected_client,
        connected_history @ [EvSearch 0 alice_request, EvSearch 0 alice_request,
          EvLog alice_request 3, EvSleep (3 * Second)])
   \<and> user_of_entry [''cn'', ''mail'', ''telephoneNumber'']
        (requested [''cn'', ''mail'', ''telephoneNumber''] alice) ''cn'' = Some ''Alice A''
   \<and> user_of_entry [''cn'', ''mail'', ''telephoneNumber'']
        (requested [''cn'', ''mail'', ''telephoneNumber''] alice) ''mail''
        = Some ''alice@example.com''
   \<and> user_of_entry [''cn'', ''mail'', ''telephoneNumber'']
        (requested [''cn'', ''mail'', ''telephoneNumber''] alice) ''telephoneNumber'' = Some ''''
   \<and> dom (user_of_entry [''cn'', ''mail'', ''telephoneNumber'']
        (requested [''cn'', ''mail'', ''telephoneNumber''] alice))
        = {''cn'', ''mail'', ''telephoneNumber''}"
proof -
  let ?sr = "\<lparr>Entries = [requested [''cn'', ''mail'', ''telephoneNumber''] alice]\<rparr>"
  let ?tr2 = "connected_history @ [EvSearch 0 alice_request, EvSearch 0 alice_request,
          EvLog alice_request 3, EvSleep (3 * Second)]"
  note h1 = demo_connect_state [of 1 9]
  note h2 = connected_client_Conn
  have h3: "search_with_retry (demo_lib 1 9) 0
      (UserFilterRequest (demo_lib 1 9) connected_client ''alice'' (Attributes connected_client))
      connected_history = (Inr ?sr, ?tr2)"
    by (simp add: demo_user_request demo_search_after_one_failure)
      (simp add: alice_request_def demo_directory_def)
  have h4: "Entries ?sr = [requested [''cn'', ''mail'', ''telephoneNumber''] alice]"
    by simp
  have v: "GetAttributeValue (requested [''cn'', ''mail'', ''telephoneNumber''] alice) ''cn''
             = ''Alice A''"
     "GetAttributeValue (requested [''cn'', ''mail'', ''telephoneNumber''] alice) ''mail''
             = ''alice@example.com''"
     "GetAttributeValue (requested [''cn'', ''mail'', ''telephoneNumber''] alice)
        ''telephoneNumber'' = ''''"
    by (simp_all add: GetAttributeValue_def requested_def alice_def)
  from SearchUser_one_entry [OF h1 h2 h3 h4] h1 v
  show ?thesis
    by (simp add: demo_attributes)
qed

section \<open>No matching entry\<close>

text \<open>
  Claim C4. When the search answers with no entry, SearchUser and FindUsers fail with the
  error "User does not exist" (NotFound), and GetGroupsOfUser returns the empty list and
  no error.
\<close>

theorem no_entry_NotFound_but_empty_groups:
  assumes "Connect lib lc tr = (None, lc1, tr1)" and "Conn lc1 = Some c"
    and "search_with_retry lib c (UserFilterRequest lib lc1 username (Attributes lc1)) tr1
           = (Inr sr, tr2)"
    and "Entries sr = []"
    and "search_with_retry lib c (GroupFilterRequest lib lc1 username) tr1 = (Inr gsr, gtr2)"
    and "Entries gsr = []"
  shows "SearchUser lib username lc tr =
           (Return (None, Some (errors_New ''User does not exist'')), lc1, tr2)
         \<and> FindUsers lib username lc tr =
           (Return (None, Some (errors_New ''User does not exist'')), lc1, tr2)
         \<and> GetGroupsOfUser lib username lc tr = (Return (Some [], None), lc1, gtr2)"
  using SearchUser_searched [OF assms(1,2,3)] FindUsers_searched [OF assms(1,2,3)]
    GetGroupsOfUser_searched [OF assms(1,2,5)] assms(4,6)
  by simp

theorem no_entry_NotFound_but_empty_groups_witness:
  "Connect (demo_lib 0 9) demo_client [] = (None, connected_client, connected_history)
   \<and> SearchUser (demo_lib 0 9) ''carol'' demo_client [] =
       (Return (None, Some (errors_New ''User does not exist'')), connected_client,
        connected_history @ [EvSearch 0 (UserFilterRequest (demo_lib 0 9) connected_client
           ''carol'' (Attributes connected_client))])
   \<and> FindUsers (demo_lib 0 9) ''carol'' demo_client [] =
       (Return (None, Some (errors_New ''User does not exist'')), connected_client,
        connected_history @ [EvSearch 0 (UserFilterRequest (demo_lib 0 9) connected_client
           ''carol'' (Attributes connected_client))])
   \<and> GetGroupsOfUser (demo_lib 0 9) ''carol'' demo_client [] =
       (Return (Some [], None), connected_client,
        connected_history @ [EvSearch 0 (GroupFilterRequest (demo_lib 0 9) connected_client
           ''carol'')])"
proof -
  let ?ureq = "UserFilterRequest (demo_lib 0 9) connected_client ''carol''
                 (Attributes connected_client)"
  let ?greq = "GroupFilterRequest (demo_lib 0 9) connected_client ''carol''"
  note h1 = demo_connect_state [of 0 9]
  note h2 = connected_client_Conn
  have fu: "Filter ?ureq = ''(uid=carol)''"
    by (simp add: UserFilterRequest_def NewSearchRequest_def demo_lib_def connected_client_def
        demo_client_def)
  have fg: "Filter ?greq = ''(memberUid=carol)''"
    by (simp add: GroupFilterRequest_def NewSearchRequest_def demo_lib_def connected_client_def
        demo_client_def)
  have h3: "search_with_retry (demo_lib 0 9) 0 ?ureq connected_history =
      (Inr \<lparr>Entries = []\<rparr>, connected_history @ [EvSearch 0 ?ureq])"
    by (simp add: demo_search fu demo_directory_def)
  have h5: "search_with_retry (demo_lib 0 9) 0 ?greq connected_history =
      (Inr \<lparr>Entries = []\<rparr>, connected_history @ [EvSearch 0 ?greq])"
    by (simp add: demo_search fg demo_directory_def)
  have h4: "Entries \<lparr>Entries = []\<rparr> = []"
    by simp
  from no_entry_NotFound_but_empty_groups [OF h1 h2 h3 h4 h5 h4] h1
  show ?thesis by simp
qed

section \<open>More than one matching entry\<close>

text \<open>
  Claim C5. When the search answers with more than one entry, SearchUser fails with the
  error "Too many entries returned" (AmbiguousResult), and FindUsers returns, without error,
  one mapping for each entry, in the order of the answer, each over the configured
  attribute names with the values of its own entry.
\<close>

theorem many_entries_ambiguous_but_all_found:
  assumes "Connect lib lc tr = (None, lc1, tr1)" and "Conn lc1 = Some c"
    and "search_with_retry lib c (UserFilterRequest lib lc1 username (Attributes lc1)) tr1
           = (Inr sr, tr2)"
    and "length (Entries sr) > 1"
  shows "SearchUser lib username lc tr =
           (Return (None, Some (errors_New ''Too many entries returned'')), lc1, tr2)
         \<and> FindUsers lib username lc tr =
           (Return (Some (map (user_of_entry (Attributes lc)) (Entries sr)), None), lc1, tr2)
         \<and> length (map (user_of_entry (Attributes lc)) (Entries sr)) = length (Entries sr)
         \<and> (\<forall>i < length (Entries sr).
              dom (map (user_of_entry (Attributes lc)) (Entries sr) ! i) = set (Attributes lc)
              \<and> (\<forall>attr \<in> set (Attributes lc).
                    (map (user_of_entry (Attributes lc)) (Entries sr) ! i) attr
                      = Some (GetAttributeValue (Entries sr ! i) attr)))"
proof -
  have attrs: "Attributes lc1 = Attributes lc"
    using assms(1) by (rule Connect_Attributes)
  have nonempty: "\<not> length (Entries sr) < 1"
    using assms(4) by arith
  have "SearchUser lib username lc tr =
           (Return (None, Some (errors_New ''Too many entries returned'')), lc1, tr2)"
    using SearchUser_searched [OF assms(1,2,3)] assms(4) nonempty by (simp del: One_nat_def)
  moreover have "FindUsers lib username lc tr =
           (Return (Some (map (user_of_entry (Attributes lc)) (Entries sr)), None), lc1, tr2)"
    using FindUsers_searched [OF assms(1,2,3)] nonempty attrs by (simp del: One_nat_def)
  ultimately show ?thesis
    by (simp add: dom_user_of_entry user_of_entry_value)
qed

theorem many_entries_ambiguous_but_all_found_witness:
  "Connect (demo_lib 0 9) demo_client [] = (None, connected_client, connected_history)
   \<and> SearchUser (demo_lib 0 9) ''*'' demo_client [] =
       (Return (None, Some (errors_New ''Too many entries returned'')), connected_client,
        connected_history @ [EvSearch 0 (UserFilterRequest (demo_lib 0 9) connected_client
           ''*'' (Attributes connected_client))])
   \<and> FindUsers (demo_lib 0 9) ''*'' demo_client [] =
       (Return (Some [user_of_entry [''cn'', ''mail'', ''telephoneNumber'']
                        (requested [''cn'', ''mail'', ''telephoneNumber''] alice),
                      user_of_entry [''cn'', ''mail'', ''telephoneNumber'']
                        (requested [''cn'', ''mail'', ''telephoneNumber''] bob)], None),
        connected_client,
        connected_history @ [EvSearch 0 (UserFilterRequest (demo_lib 0 9) connected_client
           ''*'' (Attributes connected_client))])
   \<and> user_of_entry [''cn'', ''mail'', ''telephoneNumber'']
        (requested [''cn'', ''mail'', ''telephoneNumber''] bob) ''cn'' = Some ''Bob B''
   \<and> user_of_entry [''cn'', ''mail'', ''telephoneNumber'']
        (requested [''cn'', ''mail'', ''telephoneNumber''] bob) ''mail'' = Some ''''"
proof -
  let ?ureq = "UserFilterRequest (demo_lib 0 9) connected_client ''*''
                 (Attributes connected_client)"
  let ?sr = "\<lparr>Entries = [requested [''cn'', ''mail'', ''telephoneNumber''] alice,
                          requested [''cn'', ''mail'', ''telephoneNumber''] bob]\<rparr>"
  note h1 = demo_connect_state [of 0 9]
  note h2 = connected_client_Conn
  have fu: "Filter ?ureq = ''(uid=*)''" "req_Attributes ?ureq = [''cn'', ''mail'', ''telephoneNumber'']"
    by (simp_all add: UserFilterRequest_def NewSearchRequest_def demo_lib_def connected_client_def
        demo_client_def)
  have h3: "search_with_retry (demo_lib 0 9) 0 ?ureq connected_history =
      (Inr ?sr, connected_history @ [EvSearch 0 ?ureq])"
    by (simp add: demo_search fu demo_directory_def)
  have h4: "length (Entries ?sr) > 1"
    by simp
  have v: "GetAttributeValue (requested [''cn'', ''mail'', ''telephoneNumber''] bob) ''cn''
             = ''Bob B''"
     "GetAttributeValue (requested [''cn'', ''mail'', ''telephoneNumber''] bob) ''mail'' = ''''"
    by (simp_all add: GetAttributeValue_def requested_def bob_def)
  have i: "(1::nat) < length (Entries ?sr)"
    by simp
  from many_entries_ambiguous_but_all_found [OF h1 h2 h3 h4] h1 v
  show ?thesis
    by (simp add: demo_attributes user_of_entry_value)
qed

section \<open>Authenticate, step by step\<close>

lemma Authenticate_searched:
  assumes "Connect lib lc tr = (None, lc1, tr1)" and "Conn lc1 = Some c"
    and "privileged_bind lib lc1 c tr1 = (None, tr2)"
    and "Search lib c (UserFilterRequest lib lc1 username (Attributes lc1 @ [''dn''])) tr2
           = (Inr sr, tr3)"
  shows "Authenticate lib username password lc tr =
     (if length (Entries sr) < 1 then
        (Return (False, None, Some (errors_New ''User does not exist'')), lc1, tr3)
      else if length (Entries sr) > 1 then
        (Return (False, None, Some (errors_New ''Too many entries returned'')), lc1, tr3)
      else
        (case Bind lib c (DN (Entries sr ! 0)) password tr3 of
           (Some err, tr4) \<Rightarrow>
             (Return (False, Some (user_of_entry (Attributes lc1) (Entries sr ! 0)), Some err),
              lc1, tr4)
         | (None, tr4) \<Rightarrow>
             (case privileged_bind lib lc1 c tr4 of
                (Some err, tr5) \<Rightarrow>
                  (Return (True, Some (user_of_entry (Attributes lc1) (Entries sr ! 0)), Some err),
                   lc1, tr5)
              | (None, tr5) \<Rightarrow>
                  (Return (True, Some (user_of_entry (Attributes lc1) (Entries sr ! 0)), None),
                   lc1, tr5))))"
  using assms by (simp add: Authenticate_def Let_def)

lemma Connect_BindDN:
  assumes "Connect lib lc tr = (err, lc1, tr1)"
  shows "BindDN lc1 = BindDN lc" and "BindPassword lc1 = BindPassword lc"
  using Connect_config [OF assms] by (cases lc, cases lc1, simp)+


lemma demo_reader_bind:
  "privileged_bind (demo_lib k (Suc n)) connected_client 0 connected_history
     = (None, reader_bound_history)"
  by (simp add: privileged_bind_def Bind_def demo_lib_def connected_client_def demo_client_def
      connected_history_def reader_bound_history_def)

lemma demo_auth_request:
  "UserFilterRequest (demo_lib k n) connected_client ''alice''
      (Attributes connected_client @ [''dn'']) = alice_auth_request"
  "UserFilterRequest (demo_lib k n) connected_client ''carol''
      (Attributes connected_client @ [''dn'']) = carol_auth_request"
  by (simp_all add: UserFilterRequest_def NewSearchRequest_def demo_lib_def connected_client_def
      demo_client_def alice_auth_request_def carol_auth_request_def ScopeWholeSubtree_def
      NeverDerefAliases_def)

lemma demo_auth_search:
  "Search (demo_lib 0 n) 0 alice_auth_request reader_bound_history =
     (Inr \<lparr>Entries = [alice_found]\<rparr>, reader_bound_history @ [EvSearch 0 alice_auth_request])"
  "Search (demo_lib 0 n) 0 carol_auth_request reader_bound_history =
     (Inr \<lparr>Entries = []\<rparr>, reader_bound_history @ [EvSearch 0 carol_auth_request])"
  by (simp_all add: Search_def demo_lib_def reader_bound_history_def connected_history_def
      alice_auth_request_def carol_auth_request_def demo_directory_def alice_found_def)

lemma alice_found_DN: "DN alice_found = ''uid=alice,ou=people,dc=example,dc=com''"
  by (simp add: alice_found_def requested_def alice_def)

lemma alice_user_values:
  "alice_user ''cn'' = Some ''Alice A''"
  "alice_user ''mail'' = Some ''alice@example.com''"
  "alice_user ''telephoneNumber'' = Some ''''"
  "alice_user ''dn'' = None"
  by (simp_all add: alice_user_def user_of_entry_def GetAttributeValue_def alice_found_def
      requested_def alice_def)

section \<open>A wrong password\<close>

text \<open>
  Claim C6. When Authenticate has found exactly one entry and the bind as that entry with
  the supplied password fails, it returns false, the attributes of the entry and the error
  of the bind. When it has found no entry it returns false, no attributes (nil) and the
  error "User does not exist": the two failures differ in the attributes and in the error.
\<close>

theorem wrong_password_keeps_attributes:
  assumes "Connect lib lc tr = (None, lc1, tr1)" and "Conn lc1 = Some c"
    and "privileged_bind lib lc1 c tr1 = (None, tr2)"
    and "Search lib c (UserFilterRequest lib lc1 username (Attributes lc1 @ [''dn''])) tr2
           = (Inr sr, tr3)"
  shows "(Entries sr = [e] \<and> Bind lib c (DN e) password tr3 = (Some err, tr4) \<longrightarrow>
            Authenticate lib username password lc tr =
              (Return (False, Some (user_of_entry (Attributes lc) e), Some err), lc1, tr4))
         \<and> (Entries sr = [] \<longrightarrow>
            Authenticate lib username password lc tr =
              (Return (False, None, Some (errors_New ''User does not exist'')), lc1, tr3))"
proof -
  have attrs: "Attributes lc1 = Attributes lc"
    using assms(1) by (rule Connect_Attributes)
  show ?thesis
    using Authenticate_searched [OF assms, of password] attrs by simp
qed

theorem wrong_password_keeps_attributes_witness:
  "Authenticate (demo_lib 0 9) ''alice'' ''wrong'' demo_client [] =
     (Return (False, Some alice_user, Some (library_error ''Invalid Credentials'')),
      connected_client,
      reader_bound_history @ [EvSearch 0 alice_auth_request,
        EvBind 0 ''uid=alice,ou=people,dc=example,dc=com'' ''wrong''])
   \<and> alice_user ''cn'' = Some ''Alice A''
   \<and> Authenticate (demo_lib 0 9) ''carol'' ''wrong'' demo_client [] =
     (Return (False, None, Some (errors_New ''User does not exist'')), connected_client,
      reader_bound_history @ [EvSearch 0 carol_auth_request])"
proof -
  note h1 = demo_connect_state [of 0 9]
  note h2 = connected_client_Conn
  have h3: "privileged_bind (demo_lib 0 9) connected_client 0 connected_history
              = (None, reader_bound_history)"
    using demo_reader_bind [of 0 8] by simp
  have h4a: "Search (demo_lib 0 9) 0
      (UserFilterRequest (demo_lib 0 9) connected_client ''alice''
         (Attributes connected_client @ [''dn''])) reader_bound_history =
     (Inr \<lparr>Entries = [alice_found]\<rparr>, reader_bound_history @ [EvSearch 0 alice_auth_request])"
    by (simp add: demo_auth_request demo_auth_search)
  have h4c: "Search (demo_lib 0 9) 0
      (UserFilterRequest (demo_lib 0 9) connected_client ''carol''
         (Attributes connected_client @ [''dn''])) reader_bound_history =
     (Inr \<lparr>Entries = []\<rparr>, reader_bound_history @ [EvSearch 0 carol_auth_request])"
    by (simp add: demo_auth_request demo_auth_search)
  have h5: "Bind (demo_lib 0 9) 0 (DN alice_found) ''wrong''
       (reader_bound_history @ [EvSearch 0 alice_auth_request]) =
     (Some (library_error ''Invalid Credentials''),
      reader_bound_history @ [EvSearch 0 alice_auth_request,
        EvBind 0 ''uid=alice,ou=people,dc=example,dc=com'' ''wrong''])"
    by (simp add: Bind_def demo_lib_def alice_found_DN)
  from wrong_password_keeps_attributes [OF h1 h2 h3 h4a,
      of alice_found "''wrong''" "library_error ''Invalid Credentials''"
         "reader_bound_history @ [EvSearch 0 alice_auth_request,
            EvBind 0 ''uid=alice,ou=people,dc=example,dc=com'' ''wrong'']"] h5
  have a: "Authenticate (demo_lib 0 9) ''alice'' ''wrong'' demo_client [] =
     (Return (False, Some alice_user, Some (library_error ''Invalid Credentials'')),
      connected_client,
      reader_bound_history @ [EvSearch 0 alice_auth_request,
        EvBind 0 ''uid=alice,ou=people,dc=example,dc=com'' ''wrong''])"
    by (simp add: demo_attributes alice_user_def)
  from wrong_password_keeps_attributes [OF h1 h2 h3 h4c, of alice_found "''wrong''"]
  have b: "Authenticate (demo_lib 0 9) ''carol'' ''wrong'' demo_client [] =
     (Return (False, None, Some (errors_New ''User does not exist'')), connected_client,
      reader_bound_history @ [EvSearch 0 carol_auth_request])"
    by simp
  from a b alice_user_values(1) show ?thesis by simp
qed

section \<open>A failing rebind after a good password\<close>

text \<open>
  Claim C7. When the bind with the supplied password succeeds, both privileged credentials
  are set, and the bind as the privileged identity that follows fails, Authenticate returns
  true, the attributes of the user and the error of that rebind.
\<close>

theorem failed_rebind_still_authenticated:
  assumes "Connect lib lc tr = (None, lc1, tr1)" and "Conn lc1 = Some c"
    and "privileged_bind lib lc1 c tr1 = (None, tr2)"
    and "Search lib c (UserFilterRequest lib lc1 username (Attributes lc1 @ [''dn''])) tr2
           = (Inr sr, tr3)"
    and "Entries sr = [e]"
    and "Bind lib c (DN e) password tr3 = (None, tr4)"
    and "BindDN lc \<noteq> ''''" and "BindPassword lc \<noteq> ''''"
    and "Bind lib c (BindDN lc) (BindPassword lc) tr4 = (Some err, tr5)"
  shows "Authenticate lib username password lc tr =
           (Return (True, Some (user_of_entry (Attributes lc) e), Some err), lc1, tr5)"
proof -
  have attrs: "Attributes lc1 = Attributes lc"
    using assms(1) by (rule Connect_Attributes)
  have "privileged_bind lib lc1 c tr4 = (Some err, tr5)"
    using assms(7,8,9) Connect_BindDN [OF assms(1)] by (simp add: privileged_bind_def)
  then show ?thesis
    using Authenticate_searched [OF assms(1,2,3,4), of password] assms(5,6) attrs by simp
qed

theorem failed_rebind_still_authenticated_witness:
  "Authenticate (demo_lib 0 1) ''alice'' ''wonderland'' demo_client [] =
     (Return (True, Some alice_user, Some (library_error ''Invalid Credentials'')),
      connected_client,
      reader_bound_history @ [EvSearch 0 alice_auth_request,
        EvBind 0 ''uid=alice,ou=people,dc=example,dc=com'' ''wonderland'',
        EvBind 0 ''cn=reader,dc=example,dc=com'' ''secret''])
   \<and> alice_user ''mail'' = Some ''alice@example.com''"
proof -
  note h1 = demo_connect_state [of 0 1]
  note h2 = connected_client_Conn
  have h3: "privileged_bind (demo_lib 0 1) connected_client 0 connected_history
              = (None, reader_bound_history)"
    using demo_reader_bind [of 0 0] by simp
  have h4: "Search (demo_lib 0 1) 0
      (UserFilterRequest (demo_lib 0 1) connected_client ''alice''
         (Attributes connected_client @ [''dn''])) reader_bound_history =
     (Inr \<lparr>Entries = [alice_found]\<rparr>, reader_bound_history @ [EvSearch 0 alice_auth_request])"
    by (simp add: demo_auth_request demo_auth_search)
  have h5: "Entries \<lparr>Entries = [alice_found]\<rparr> = [alice_found]"
    by simp
  have h6: "Bind (demo_lib 0 1) 0 (DN alice_found) ''wonderland''
       (reader_bound_history @ [EvSearch 0 alice_auth_request]) =
     (None,
      reader_bound_history @ [EvSearch 0 alice_auth_request,
        EvBind 0 ''uid=alice,ou=people,dc=example,dc=com'' ''wonderland''])"
    by (simp add: Bind_def demo_lib_def alice_found_DN alice_def)
  have h7: "BindDN demo_client \<noteq> ''''" and h8: "BindPassword demo_client \<noteq> ''''"
    by (simp_all add: demo_client_def)
  have h9: "Bind (demo_lib 0 1) 0 (BindDN demo_client) (BindPassword demo_client)
       (reader_bound_history @ [EvSearch 0 alice_auth_request,
        EvBind 0 ''uid=alice,ou=people,dc=example,dc=com'' ''wonderland'']) =
     (Some (library_error ''Invalid Credentials''),
      reader_bound_history @ [EvSearch 0 alice_auth_request,
        EvBind 0 ''uid=alice,ou=people,dc=example,dc=com'' ''wonderland'',
        EvBind 0 ''cn=reader,dc=example,dc=com'' ''secret''])"
    by (simp add: Bind_def demo_lib_def demo_client_def reader_bound_history_def
        connected_history_def alice_def)
  from failed_rebind_still_authenticated [OF h1 h2 h3 h4 h5 h6 h7 h8 h9] alice_user_values(2)
  show ?thesis
    by (simp add: demo_attributes alice_user_def)
qed

section \<open>What the record of an authenticated user holds\<close>








section \<open>The privileged binds and their guard\<close>

text \<open>
  Claim C10. In Authenticate the privileged bind before the search and the privileged
  rebind after a good password are made only when the privileged distinguished name and
  the privileged password are both non-empty. When one of them is empty, Authenticate is
  the search followed by the credential check alone: after connecting it calls the search,
  then at most the bind with the supplied password, and no bind error of a privileged bind
  can arise. When both are non-empty, the first call after connecting is the privileged
  bind, and when the password was accepted the last call is the privileged rebind.
\<close>

theorem privileged_binds_need_both_credentials:
  assumes "Connect lib lc tr = (None, lc1, tr1)" and "Conn lc1 = Some c"
  shows "(BindDN lc = '''' \<or> BindPassword lc = '''' \<longrightarrow>
            Authenticate lib username password lc tr =
              (case Search lib c (UserFilterRequest lib lc1 username (Attributes lc1 @ [''dn'']))
                      tr1 of
                 (Inl err, tr2) \<Rightarrow> (Return (False, None, Some err), lc1, tr2)
               | (Inr sr, tr2) \<Rightarrow>
                   if length (Entries sr) < 1 then
                     (Return (False, None, Some (errors_New ''User does not exist'')), lc1, tr2)
                   else if length (Entries sr) > 1 then
                     (Return (False, None, Some (errors_New ''Too many entries returned'')),
                      lc1, tr2)
                   else
                     (case Bind lib c (DN (Entries sr ! 0)) password tr2 of
                        (Some err, tr3) \<Rightarrow>
                          (Return (False, Some (user_of_entry (Attributes lc1) (Entries sr ! 0)),
                             Some err), lc1, tr3)
                      | (None, tr3) \<Rightarrow>
                          (Return (True, Some (user_of_entry (Attributes lc1) (Entries sr ! 0)),
                             None), lc1, tr3)))
            \<and> snd (snd (Authenticate lib username password lc tr)) =
                tr1 @ EvSearch c (UserFilterRequest lib lc1 username (Attributes lc1 @ [''dn'']))
                  # (case conn_Search lib tr1 c
                            (UserFilterRequest lib lc1 username (Attributes lc1 @ [''dn''])) of
                       Inl err \<Rightarrow> []
                     | Inr sr \<Rightarrow>
                         if length (Entries sr) = 1
                         then [EvBind c (DN (Entries sr ! 0)) password] else []))
         \<and> (BindDN lc \<noteq> '''' \<and> BindPassword lc \<noteq> '''' \<longrightarrow>
              take (Suc (length tr1)) (snd (snd (Authenticate lib username password lc tr)))
                = tr1 @ [EvBind c (BindDN lc) (BindPassword lc)]
              \<and> (\<forall>user err. fst (Authenticate lib username password lc tr)
                                = Return (True, user, err) \<longrightarrow>
                    last (snd (snd (Authenticate lib username password lc tr)))
                      = EvBind c (BindDN lc) (BindPassword lc)))"
proof -
  have same: "BindDN lc1 = BindDN lc" "BindPassword lc1 = BindPassword lc"
    using Connect_BindDN [OF assms(1)] by simp_all
  have skipped: "privileged_bind lib lc1 c h = (None, h)"
    if "BindDN lc = '''' \<or> BindPassword lc = ''''" for h
    using that same by (auto simp: privileged_bind_def)
  have made: "privileged_bind lib lc1 c h =
                (conn_Bind lib h c (BindDN lc) (BindPassword lc),
                 h @ [EvBind c (BindDN lc) (BindPassword lc)])"
    if "BindDN lc \<noteq> '''' \<and> BindPassword lc \<noteq> ''''" for h
    using that same by (simp add: privileged_bind_def Bind_def)
  have unfolded: "Authenticate lib username password lc tr =
     (case privileged_bind lib lc1 c tr1 of
        (Some err, tr2) \<Rightarrow> (Return (False, None, Some err), lc1, tr2)
      | (None, tr2) \<Rightarrow>
          (case Search lib c (UserFilterRequest lib lc1 username (Attributes lc1 @ [''dn''])) tr2 of
             (Inl err, tr3) \<Rightarrow> (Return (False, None, Some err), lc1, tr3)
           | (Inr sr, tr3) \<Rightarrow>
               if length (Entries sr) < 1 then
                 (Return (False, None, Some (errors_New ''User does not exist'')), lc1, tr3)
               else if length (Entries sr) > 1 then
                 (Return (False, None, Some (errors_New ''Too many entries returned'')), lc1, tr3)
               else
                 (case Bind lib c (DN (Entries sr ! 0)) password tr3 of
                    (Some err, tr4) \<Rightarrow>
                      (Return (False, Some (user_of_entry (Attributes lc1) (Entries sr ! 0)),
                         Some err), lc1, tr4)
                  | (None, tr4) \<Rightarrow>
                      (case privileged_bind lib lc1 c tr4 of
                         (Some err, tr5) \<Rightarrow>
                           (Return (True, Some (user_of_entry (Attributes lc1) (Entries sr ! 0)),
                              Some err), lc1, tr5)
                       | (None, tr5) \<Rightarrow>
                           (Return (True, Some (user_of_entry (Attributes lc1) (Entries sr ! 0)),
                              None), lc1, tr5)))))"
    using assms
    by (simp add: Authenticate_def Let_def split: prod.splits option.splits sum.splits)
  have one_entry: "length xs = Suc 0" if "xs \<noteq> []" and "\<not> Suc 0 < length xs"
    for xs :: "Entry list"
    using that by (cases xs) auto
  have part1: ?thesis if e: "BindDN lc = '''' \<or> BindPassword lc = ''''"
  proof -
    have neg: "\<not> (BindDN lc \<noteq> '''' \<and> BindPassword lc \<noteq> '''')"
      using e by simp
    have eq: "Authenticate lib username password lc tr =
              (case Search lib c (UserFilterRequest lib lc1 username (Attributes lc1 @ [''dn'']))
                      tr1 of
                 (Inl err, tr2) \<Rightarrow> (Return (False, None, Some err), lc1, tr2)
               | (Inr sr, tr2) \<Rightarrow>
                   if length (Entries sr) < 1 then
                     (Return (False, None, Some (errors_New ''User does not exist'')), lc1, tr2)
                   else if length (Entries sr) > 1 then
                     (Return (False, None, Some (errors_New ''Too many entries returned'')),
                      lc1, tr2)
                   else
                     (case Bind lib c (DN (Entries sr ! 0)) password tr2 of
                        (Some err, tr3) \<Rightarrow>
                          (Return (False, Some (user_of_entry (Attributes lc1) (Entries sr ! 0)),
                             Some err), lc1, tr3)
                      | (None, tr3) \<Rightarrow>
                          (Return (True, Some (user_of_entry (Attributes lc1) (Entries sr ! 0)),
                             None), lc1, tr3)))"
      unfolding unfolded by (simp add: skipped [OF e] split: prod.splits sum.splits option.splits)
    have "snd (snd (Authenticate lib username password lc tr)) =
                tr1 @ EvSearch c (UserFilterRequest lib lc1 username (Attributes lc1 @ [''dn'']))
                  # (case conn_Search lib tr1 c
                            (UserFilterRequest lib lc1 username (Attributes lc1 @ [''dn''])) of
                       Inl err \<Rightarrow> []
                     | Inr sr \<Rightarrow>
                         if length (Entries sr) = 1
                         then [EvBind c (DN (Entries sr ! 0)) password] else [])"
      unfolding eq
      by (auto simp: Search_def Bind_def split: sum.splits option.splits dest: one_entry)
    with eq neg show ?thesis by simp
  qed
  have part2: ?thesis if b: "BindDN lc \<noteq> '''' \<and> BindPassword lc \<noteq> ''''"
  proof -
    have neg: "\<not> (BindDN lc = '''' \<or> BindPassword lc = '''')"
      using b by simp
    have first: "take (Suc (length tr1)) (snd (snd (Authenticate lib username password lc tr)))
                = tr1 @ [EvBind c (BindDN lc) (BindPassword lc)]"
      unfolding unfolded
      by (auto simp: made [OF b] Search_def Bind_def split: sum.splits option.splits)
    have last: "last (snd (snd (Authenticate lib username password lc tr)))
                      = EvBind c (BindDN lc) (BindPassword lc)"
      if "fst (Authenticate lib username password lc tr) = Return (True, user, err)"
      for user err
      using that unfolding unfolded
      by (auto simp: made [OF b] Search_def Bind_def split: sum.splits option.splits if_splits)
    from first last neg show ?thesis by blast
  qed
  from part1 part2 show ?thesis by blast
qed

theorem privileged_binds_need_both_credentials_witness:
  "BindPassword client_without_password = ''''
   \<and> Authenticate (demo_lib 0 9) ''alice'' ''wonderland'' client_without_password [] =
       (Return (True, Some alice_user, None), client_without_password\<lparr>Conn := Some 0\<rparr>,
        connected_history @ [EvSearch 0 alice_auth_request,
          EvBind 0 ''uid=alice,ou=people,dc=example,dc=com'' ''wonderland''])
   \<and> BindDN demo_client = ''cn=reader,dc=example,dc=com''
   \<and> BindPassword demo_client = ''secret''
   \<and> take 3 (snd (snd (Authenticate (demo_lib 0 9) ''alice'' ''wonderland'' demo_client [])))
       = connected_history @ [EvBind 0 ''cn=reader,dc=example,dc=com'' ''secret'']"
proof -
  let ?lc1 = "client_without_password\<lparr>Conn := Some 0\<rparr>"
  have a1: "Connect (demo_lib 0 9) client_without_password [] = (None, ?lc1, connected_history)"
    by (simp add: Connect_def demo_lib_def client_without_password_def demo_client_def Dial_def
        StartTLS_def demo_Sprintf_addr_def dial_count_def connected_history_def)
  have a2: "Conn ?lc1 = Some 0"
    by simp
  have a3: "BindPassword client_without_password = ''''"
    by (simp add: client_without_password_def)
  have req: "UserFilterRequest (demo_lib 0 9) ?lc1 ''alice'' (Attributes ?lc1 @ [''dn''])
               = alice_auth_request"
    by (simp add: UserFilterRequest_def NewSearchRequest_def demo_lib_def demo_client_def
        client_without_password_def alice_auth_request_def ScopeWholeSubtree_def
        NeverDerefAliases_def)
  have a4: "Search (demo_lib 0 9) 0 alice_auth_request connected_history =
     (Inr \<lparr>Entries = [alice_found]\<rparr>, connected_history @ [EvSearch 0 alice_auth_request])"
    by (simp add: Search_def demo_lib_def connected_history_def alice_auth_request_def
        demo_directory_def alice_found_def)
  have a5: "Bind (demo_lib 0 9) 0 (DN alice_found) ''wonderland''
        (connected_history @ [EvSearch 0 alice_auth_request]) =
     (None, connected_history @ [EvSearch 0 alice_auth_request,
          EvBind 0 ''uid=alice,ou=people,dc=example,dc=com'' ''wonderland''])"
    by (simp add: Bind_def demo_lib_def alice_found_DN alice_def)
  have a6: "Attributes ?lc1 = [''cn'', ''mail'', ''telephoneNumber'']"
    by (simp add: client_without_password_def demo_client_def)
  from privileged_binds_need_both_credentials [OF a1 a2, of "''alice''" "''wonderland''"] a3
  have a: "Authenticate (demo_lib 0 9) ''alice'' ''wonderland'' client_without_password [] =
       (Return (True, Some alice_user, None), ?lc1,
        connected_history @ [EvSearch 0 alice_auth_request,
          EvBind 0 ''uid=alice,ou=people,dc=example,dc=com'' ''wonderland''])"
    unfolding req by (simp add: a4 a5 a6 alice_user_def)
  have b1: "BindDN demo_client = ''cn=reader,dc=example,dc=com''"
    and b2: "BindPassword demo_client = ''secret''"
    by (simp_all add: demo_client_def)
  have len: "Suc (length connected_history) = 3"
    by (simp add: connected_history_def)
  from privileged_binds_need_both_credentials
    [OF demo_connect_state [of 0 9] connected_client_Conn, of "''alice''" "''wonderland''"]
  have b: "take 3 (snd (snd (Authenticate (demo_lib 0 9) ''alice'' ''wonderland''
              demo_client [])))
       = connected_history @ [EvBind 0 ''cn=reader,dc=example,dc=com'' ''secret'']"
    unfolding len by (simp add: b1 b2)
  from a a3 b b1 b2 show ?thesis by simp
qed

end
